theory Spec2Isabelle
  imports Complex_Main "HOL-Library.Char_ord" "HOL-Library.List_Lexorder"
begin

section \<open>JavaScript values\<close>

text \<open>
  The sources are TypeScript. Values whose static type is \<^verbatim>\<open>unknown\<close> (payload fields, HTTP
  bodies, the raw progress of a task) are modelled dynamically: \<open>jsval\<close> is JSON data plus
  \<^verbatim>\<open>undefined\<close>. A number is NaN, an infinity or a finite value; finite values are reals,
  so the rounding of IEEE doubles is abstracted (no property below depends on it).
  An object is an association list from property names to values.
\<close>

datatype jsnum = NaN | PosInf | NegInf | Fin real

datatype jsval =
    JUndef
  | JNull
  | JBool bool
  | JNum jsnum
  | JStr string
  | JArr "jsval list"
  | JObj "(string \<times> jsval) list"

type_synonym jsobj = "(string \<times> jsval) list"

text \<open>\<^verbatim>\<open>Number.isFinite\<close>.\<close>

fun isFinite :: "jsnum \<Rightarrow> bool" where
  "isFinite (Fin x) = True"
| "isFinite NaN = False"
| "isFinite PosInf = False"
| "isFinite NegInf = False"

text \<open>Truthiness, the operators \<^verbatim>\<open>||\<close> and \<^verbatim>\<open>??\<close>, and property access \<^verbatim>\<open>o.k\<close> on an object.\<close>

fun truthy :: "jsval \<Rightarrow> bool" where
  "truthy JUndef = False"
| "truthy JNull = False"
| "truthy (JBool b) = b"
| "truthy (JNum n) = (n \<noteq> NaN \<and> n \<noteq> Fin 0)"
| "truthy (JStr s) = (s \<noteq> [])"
| "truthy (JArr xs) = True"
| "truthy (JObj kvs) = True"

definition js_or :: "jsval \<Rightarrow> jsval \<Rightarrow> jsval" where
  "js_or a b = (if truthy a then a else b)"

definition nullish :: "jsval \<Rightarrow> bool" where
  "nullish v = (v = JUndef \<or> v = JNull)"

definition js_coalesce :: "jsval \<Rightarrow> jsval \<Rightarrow> jsval" where
  "js_coalesce a b = (if nullish a then b else a)"

definition get :: "jsobj \<Rightarrow> string \<Rightarrow> jsval" where
  "get obj k = (case map_of obj k of None \<Rightarrow> JUndef | Some v \<Rightarrow> v)"

text \<open>
  Property assignment \<^verbatim>\<open>o.k = v\<close> and object spread \<^verbatim>\<open>{...a, ...b}\<close>. An object has one
  value per property name; in an association list the first pair of a name counts. The
  spread keeps the properties of \<open>a\<close> in place, with the value that \<open>b\<close> gives where \<open>b\<close> has
  the property, followed by the properties that only \<open>b\<close> has.
\<close>

fun set_prop :: "string \<Rightarrow> jsval \<Rightarrow> jsobj \<Rightarrow> jsobj" where
  "set_prop k v [] = [(k, v)]"
| "set_prop k v ((k', v') # kvs) =
     (if k' = k then (k, v) # kvs else (k', v') # set_prop k v kvs)"

definition spread :: "jsobj \<Rightarrow> jsobj \<Rightarrow> jsobj" where
  "spread a b =
     map (\<lambda>(k, v). (k, case map_of b k of Some v' \<Rightarrow> v' | None \<Rightarrow> v)) a
     @ filter (\<lambda>(k, v). map_of a k = None) b"

text \<open>
  The host's built-in functions that the sources call and that are not part of the
  repository are parameters of the model, collected in one record:
  \<^item> \<open>ToNumber\<close>: \<^verbatim>\<open>Number(v)\<close> on a string, an array or an object;
  \<^item> \<open>ToString\<close>: \<^verbatim>\<open>String(v)\<close> on a value that is not a string;
  \<^item> \<open>JSON_stringify\<close>: \<^verbatim>\<open>JSON.stringify\<close> (\<^verbatim>\<open>undefined\<close> for \<^verbatim>\<open>undefined\<close>);
  \<^item> \<open>toISOString\<close>: \<^verbatim>\<open>new Date(t).toISOString()\<close> for a time value \<open>t\<close>;
  \<^item> \<open>trim\<close>: \<^verbatim>\<open>text.trim()\<close>, the method of strings;
  \<^item> \<open>replace\<close>: \<^verbatim>\<open>s.replace(pattern, replacement)\<close> with a string pattern.
\<close>

record platform =
  ToNumber :: "jsval \<Rightarrow> jsnum"
  ToString :: "jsval \<Rightarrow> string"
  JSON_stringify :: "jsval \<Rightarrow> jsval"
  toISOString :: "int \<Rightarrow> string"
  trim :: "jsval \<Rightarrow> jsval"
  replace :: "string \<Rightarrow> string \<Rightarrow> jsval \<Rightarrow> string"

text \<open>
  \<^verbatim>\<open>Number(v)\<close>: the cases the language fixes without parsing are written out, the rest
  is the host's.
\<close>

fun Number :: "platform \<Rightarrow> jsval \<Rightarrow> jsnum" where
  "Number P (JNum n) = n"
| "Number P JUndef = NaN"
| "Number P JNull = Fin 0"
| "Number P (JBool b) = Fin (if b then 1 else 0)"
| "Number P v = ToNumber P v"

text \<open>\<^verbatim>\<open>String(v)\<close>: a string is returned as it is.\<close>

fun String :: "platform \<Rightarrow> jsval \<Rightarrow> string" where
  "String P (JStr s) = s"
| "String P v = ToString P v"

section \<open>Progress normalization (tool/task-client.ts, tool/useToolTask.ts)\<close>

text \<open>
  \<^verbatim>\<open>
  function normalizeProgress(raw: unknown): number {
    const maybeNumber = typeof raw === 'number' ? raw : Number(raw)
    const numeric = Number.isFinite(maybeNumber) ? maybeNumber : 0
    const ratio = numeric > 1 ? numeric / 100 : numeric
    return Math.max(0, Math.min(1, ratio))
  }
  \<close>
  After the \<^verbatim>\<open>isFinite\<close> test the value is a finite number, so the result is a real.
\<close>

definition maybeNumber :: "platform \<Rightarrow> jsval \<Rightarrow> jsnum" where
  "maybeNumber P raw = (case raw of JNum n \<Rightarrow> n | _ \<Rightarrow> Number P raw)"

definition numeric :: "platform \<Rightarrow> jsval \<Rightarrow> real" where
  "numeric P raw = (case maybeNumber P raw of Fin x \<Rightarrow> x | _ \<Rightarrow> 0)"

definition ratio :: "real \<Rightarrow> real" where
  "ratio x = (if x > 1 then x / 100 else x)"

definition normalizeProgress :: "platform \<Rightarrow> jsval \<Rightarrow> real" where
  "normalizeProgress P raw = max 0 (min 1 (ratio (numeric P raw)))"


text \<open>
  The rule as it is worded for numbers, read on every number: a number greater than 1 is
  divided by 100 (Infinity stays Infinity), then the result is clamped between 0 and 1
  by \<^verbatim>\<open>Math.max(0, Math.min(1, n))\<close>.
\<close>

fun num_gt1 :: "jsnum \<Rightarrow> bool" where
  "num_gt1 (Fin x) = (x > 1)"
| "num_gt1 PosInf = True"
| "num_gt1 NegInf = False"
| "num_gt1 NaN = False"

fun num_div100 :: "jsnum \<Rightarrow> jsnum" where
  "num_div100 (Fin x) = Fin (x / 100)"
| "num_div100 n = n"

fun num_clamp01 :: "jsnum \<Rightarrow> jsnum" where
  "num_clamp01 (Fin x) = Fin (max 0 (min 1 x))"
| "num_clamp01 PosInf = Fin 1"
| "num_clamp01 NegInf = Fin 0"
| "num_clamp01 NaN = NaN"

definition normalize_as_worded :: "jsnum \<Rightarrow> jsnum" where
  "normalize_as_worded n = num_clamp01 (if num_gt1 n then num_div100 n else n)"

section \<open>Tool errors (tool/types.ts, tool/errors.ts)\<close>

datatype ToolErrorCode =
    UNKNOWN
  | NETWORK
  | HTTP_4XX
  | HTTP_5XX
  | TOOL_SUBMIT_FAILED
  | TASK_TIMEOUT
  | TASK_CANCELLED
  | TASK_FAILED
  | INVALID_RESPONSE

text \<open>
  A thrown JavaScript value that is not a \<^verbatim>\<open>ToolSdkError\<close>: an \<^verbatim>\<open>Error\<close> instance with its
  message, or any other value.
\<close>

datatype js_exn = ErrorObj string | ThrownValue jsval

text \<open>The \<^verbatim>\<open>raw\<close> field of an error: the caught exception, the response body or the task.\<close>

datatype raw_value = RawAbsent | RawExn js_exn | RawJson jsval

record ToolErrorDetails =
  code :: ToolErrorCode
  msg :: string
  retriable :: bool
  http_status :: "nat option"
  detail :: "string option"
  err_raw :: raw_value

text \<open>What a promise of the tool subsystem rejects with.\<close>

datatype thrown = ToolSdkError ToolErrorDetails | Other js_exn

text \<open>
  The message of the \<^verbatim>\<open>TypeError\<close> that reading a property of \<^verbatim>\<open>null\<close> or \<^verbatim>\<open>undefined\<close>
  raises; the engine's wording is not modelled.
\<close>

definition TypeError :: thrown where
  "TypeError = Other (ErrorObj ''TypeError: cannot read properties of null or undefined'')"

text \<open>
  \<^verbatim>\<open>v.k\<close> on a value of unknown shape: it raises on \<^verbatim>\<open>null\<close> and \<^verbatim>\<open>undefined\<close>, reads an
  object's property, and is \<^verbatim>\<open>undefined\<close> on the other values (the names read in these
  sources are no index and no built-in member).
\<close>

fun read_prop :: "jsval \<Rightarrow> string \<Rightarrow> thrown + jsval" where
  "read_prop JNull k = Inl TypeError"
| "read_prop JUndef k = Inl TypeError"
| "read_prop (JObj obj) k = Inr (get obj k)"
| "read_prop v k = Inr JUndef"

text \<open>
  \<^verbatim>\<open>
  export function normalizeError(input: unknown, fallback: ToolErrorCode = 'UNKNOWN') {
    if (input instanceof ToolSdkError) { return { code: input.code, ... } }
    if (input instanceof Error) {
      return { code: fallback, message: input.message || 'Unknown error',
               retriable: fallback === 'NETWORK' || fallback === 'TASK_TIMEOUT', raw: input }
    }
    return { code: fallback, message: String(input ?? 'Unknown error'),
             retriable: false, raw: input }
  }
  \<close>
\<close>

fun normalizeError :: "platform \<Rightarrow> thrown \<Rightarrow> ToolErrorCode \<Rightarrow> ToolErrorDetails" where
  "normalizeError P (ToolSdkError d) fallback = d"
| "normalizeError P (Other (ErrorObj m)) fallback =
     \<lparr> code = fallback, msg = (if m \<noteq> [] then m else ''Unknown error''),
       retriable = (fallback = NETWORK \<or> fallback = TASK_TIMEOUT),
       http_status = None, detail = None, err_raw = RawExn (ErrorObj m) \<rparr>"
| "normalizeError P (Other (ThrownValue v)) fallback =
     \<lparr> code = fallback, msg = String P (js_coalesce v (JStr ''Unknown error'')),
       retriable = False, http_status = None, detail = None,
       err_raw = RawExn (ThrownValue v) \<rparr>"

text \<open>
  \<^verbatim>\<open>
  export function codeFromHttpStatus(status: number): ToolErrorCode {
    if (status >= 500) { return 'HTTP_5XX' }
    if (status >= 400) { return 'HTTP_4XX' }
    return 'UNKNOWN'
  }
  \<close>
\<close>

definition codeFromHttpStatus :: "nat \<Rightarrow> ToolErrorCode" where
  "codeFromHttpStatus status =
     (if status \<ge> 500 then HTTP_5XX else if status \<ge> 400 then HTTP_4XX else UNKNOWN)"

section \<open>The HTTP request helper (tool/client.ts, tool/task-client.ts)\<close>

text \<open>Decimal rendering of a status code inside a template string.\<close>

definition digit :: "nat \<Rightarrow> char" where
  "digit d = char_of (48 + d)"

fun decimal_digits :: "nat \<Rightarrow> nat list" where
  "decimal_digits n = (if n < 10 then [n] else decimal_digits (n div 10) @ [n mod 10])"

definition decimal :: "nat \<Rightarrow> string" where
  "decimal n = map digit (decimal_digits n)"

text \<open>
  What \<^verbatim>\<open>await this.fetchImpl(url, init)\<close> gives: an exception, or a response with its
  status and the outcome of \<^verbatim>\<open>response.json()\<close> (\<open>None\<close> when the body is not JSON and the
  promise rejects). \<^verbatim>\<open>response.ok\<close> is the status being in the range 200 to 299.
\<close>

datatype fetch_outcome = FetchThrows js_exn | FetchResponse nat "jsval option"

definition ok :: "nat \<Rightarrow> bool" where
  "ok status = (200 \<le> status \<and> status \<le> 299)"

text \<open>
  \<^verbatim>\<open>ToolClient.request\<close> and \<^verbatim>\<open>TaskClient.request\<close> have the same body (the first adds
  a header):
  \<^verbatim>\<open>
    let response: Response
    try {
      response = await this.fetchImpl(...)
    } catch (error) {
      throw new ToolSdkError({ code: 'NETWORK',
        message: error instanceof Error ? error.message : 'Network request failed',
        retriable: true, raw: error })
    }
    const body = (await response.json().catch(() => ({}))) as Record<string, unknown>
    if (!response.ok) {
      const detail = String(body.detail ?? body.message ?? `Request failed: ${response.status}`)
      throw new ToolSdkError({ code: codeFromHttpStatus(response.status), message: detail,
        retriable: response.status >= 500, status: response.status, detail, raw: body })
    }
    return body as T
  \<close>
  The cast of the body is unchecked: the body is any JSON value, and reading
  \<^verbatim>\<open>body.detail\<close> of the JSON value \<^verbatim>\<open>null\<close> raises a \<^verbatim>\<open>TypeError\<close>.
\<close>

definition error_detail :: "platform \<Rightarrow> nat \<Rightarrow> jsval \<Rightarrow> thrown + string" where
  "error_detail P status body =
     (case read_prop body ''detail'' of
        Inl e \<Rightarrow> Inl e
      | Inr d \<Rightarrow>
          (if \<not> nullish d then Inr (String P d)
           else (case read_prop body ''message'' of
                   Inl e \<Rightarrow> Inl e
                 | Inr m \<Rightarrow>
                     Inr (String P
                       (js_coalesce m (JStr (''Request failed: '' @ decimal status)))))))"

definition request :: "platform \<Rightarrow> fetch_outcome \<Rightarrow> thrown + jsval" where
  "request P fo =
     (case fo of
        FetchThrows e \<Rightarrow>
          Inl (ToolSdkError
            \<lparr> code = NETWORK,
              msg = (case e of ErrorObj m \<Rightarrow> m | ThrownValue v \<Rightarrow> ''Network request failed''),
              retriable = True, http_status = None, detail = None, err_raw = RawExn e \<rparr>)
      | FetchResponse status parsed \<Rightarrow>
          (let body = (case parsed of None \<Rightarrow> JObj [] | Some v \<Rightarrow> v) in
           if \<not> ok status then
             (case error_detail P status body of
                Inl e \<Rightarrow> Inl e
              | Inr d \<Rightarrow>
                  Inl (ToolSdkError
                    \<lparr> code = codeFromHttpStatus status, msg = d,
                      retriable = (status \<ge> 500), http_status = Some status,
                      detail = Some d, err_raw = RawJson body \<rparr>))
           else Inr body))"

section \<open>Task polling (tool/task-client.ts)\<close>

text \<open>How an awaited promise ends; \<open>Unsettled\<close> when the environment's script ends first.\<close>

datatype 'a settled = Returned 'a | Threw thrown | Unsettled

definition decimal_int :: "int \<Rightarrow> string" where
  "decimal_int i = (if 0 \<le> i then decimal (nat i) else CHR ''-'' # decimal (nat (- i)))"






section \<open>The tool task orchestrator (tool/useToolTask.ts)\<close>

datatype ToolTaskState = idle | pending | running | completed | failed | cancelled

datatype ToolCallMode = auto | sync | async

datatype ToolLogLevel = lvl_debug | lvl_info | lvl_warn | lvl_error

text \<open>A log event; its \<^verbatim>\<open>ts\<close> field is a reading of the clock and is left out.\<close>

record ToolLogEvent =
  level :: ToolLogLevel
  log_code :: string
  log_message :: string
  log_context :: jsobj



text \<open>
  The refs of the composable, and the list of the events it has given to its log sink
  (the injected \<^verbatim>\<open>logger\<close>, or the window's event dispatch).
\<close>

record ToolTask =
  taskId :: string
  state :: ToolTaskState
  progress :: real
  message :: string
  result :: jsval
  error :: string
  errorCode :: ToolErrorCode
  errorDetails :: "ToolErrorDetails option"
  logged :: "ToolLogEvent list"


fun code_name :: "ToolErrorCode \<Rightarrow> string" where
  "code_name UNKNOWN = ''UNKNOWN''"
| "code_name NETWORK = ''NETWORK''"
| "code_name HTTP_4XX = ''HTTP_4XX''"
| "code_name HTTP_5XX = ''HTTP_5XX''"
| "code_name TOOL_SUBMIT_FAILED = ''TOOL_SUBMIT_FAILED''"
| "code_name TASK_TIMEOUT = ''TASK_TIMEOUT''"
| "code_name TASK_CANCELLED = ''TASK_CANCELLED''"
| "code_name TASK_FAILED = ''TASK_FAILED''"
| "code_name INVALID_RESPONSE = ''INVALID_RESPONSE''"

definition isRunning :: "ToolTask \<Rightarrow> bool" where
  "isRunning s = (state s = pending \<or> state s = running)"


definition log :: "ToolLogLevel \<Rightarrow> string \<Rightarrow> string \<Rightarrow> jsobj \<Rightarrow> ToolTask \<Rightarrow> ToolTask" where
  "log lvl c logMessage ctx s =
     s\<lparr> logged := logged s @
          [\<lparr> level = lvl, log_code = c, log_message = logMessage, log_context = ctx \<rparr>] \<rparr>"

definition applyError :: "ToolErrorDetails \<Rightarrow> string \<Rightarrow> jsobj \<Rightarrow> ToolTask \<Rightarrow> ToolTask" where
  "applyError details c ctx s =
     (let s1 = s\<lparr> error := msg details, errorCode := code details,
                   errorDetails := Some details \<rparr>;
          s2 = (if state s1 \<noteq> cancelled
                then s1\<lparr> state := (if code details = TASK_CANCELLED then cancelled else failed) \<rparr>
                else s1)
      in log lvl_error c (msg details)
           (spread [(''error_code'', JStr (code_name (code details))),
                    (''retriable'', JBool (retriable details))] ctx) s2)"

definition toError :: "ToolErrorDetails \<Rightarrow> thrown" where
  "toError details = Other (ErrorObj (''['' @ code_name (code details) @ ''] '' @ msg details))"







text \<open>
  \<^verbatim>\<open>cancel()\<close>; the environment gives the outcome of \<^verbatim>\<open>taskClient.cancel\<close>, which is
  called only when a task is in flight.
\<close>

definition cancel :: "platform \<Rightarrow> thrown + bool \<Rightarrow> ToolTask \<Rightarrow> ToolTask \<times> bool settled" where
  "cancel P outcome s =
     (if taskId s = [] \<or> \<not> isRunning s then (s, Returned False)
      else (case outcome of
              Inl err \<Rightarrow>
                (let normalized = normalizeError P err TASK_FAILED
                 in (applyError normalized ''TOOL_TASK_CANCEL_FAILED''
                       [(''task_id'', JStr (taskId s))] s,
                     Threw (toError normalized)))
            | Inr success \<Rightarrow>
                (if success
                 then (log lvl_warn ''TOOL_TASK_CANCELLED'' ''Task cancelled by user''
                         [(''task_id'', JStr (taskId s))]
                         (s\<lparr> state := cancelled, message := ''task cancelled'' \<rparr>),
                       Returned True)
                 else (s, Returned False))))"

section \<open>Optional properties\<close>

text \<open>
  An optional property of an object literal or of an options object is absent, present
  with the value \<^verbatim>\<open>undefined\<close>, or present with a value. Reading it gives
  \<^verbatim>\<open>undefined\<close> in the first two cases; a spread copies it in the last two.
\<close>

datatype 'a optional = Absent | Undefined | Present 'a


fun spread_opt :: "'a optional \<Rightarrow> 'a optional \<Rightarrow> 'a optional" where
  "spread_opt earlier Absent = earlier"
| "spread_opt earlier later = later"

section \<open>The realtime client (client/ZmpLiteClient.ts, types)\<close>

datatype ConnectionState = c_idle | c_connecting | c_open | c_closed | c_error | c_reconnecting





text \<open>
  The socket belongs to the environment. The model keeps what the client does to it and
  lets the environment choose what it reports: \<open>ws_states n\<close> is the \<^verbatim>\<open>readyState\<close> that
  the \<open>n\<close>-th read of the attribute gives, so the state may change between any two
  reads; \<open>ws_sent\<close> lists the frames handed to \<^verbatim>\<open>send\<close>.
\<close>

datatype ReadyState = CONNECTING | OPEN | CLOSING | CLOSED



























definition or_else :: "'a option \<Rightarrow> 'a \<Rightarrow> 'a" where
  "or_else v d = (case v of None \<Rightarrow> d | Some x \<Rightarrow> x)"




section \<open>Raw protocol messages (shared-protocol/src/index.ts)\<close>

text \<open>
  \<^verbatim>\<open>
  export type RawProtocolMessage = {
    id: string
    trace_id?: string
    message_type: string
    project_id?: string
    payload: Record<string, unknown>
    timestamp: number
    sender_id?: string
    status?: string
  }
  \<close>
  The timestamp is a time value: milliseconds since the epoch, an integer within the
  range of \<^verbatim>\<open>Date\<close>, so that the comparator \<^verbatim>\<open>a.timestamp - b.timestamp\<close> is a total order
  and the date formatting of the host is defined.
\<close>

record RawProtocolMessage =
  msg_id :: string
  trace_id :: "string optional"
  message_type :: string
  project_id :: "string optional"
  payload :: jsobj
  timestamp :: int
  sender_id :: "string optional"
  status :: "string optional"

text \<open>
  The spread \<^verbatim>\<open>{ ...existing, ...message }\<close> of two messages: the required fields are
  those of the incoming message, and so is an optional field unless it is absent there.
\<close>

definition spread_message :: "RawProtocolMessage \<Rightarrow> RawProtocolMessage \<Rightarrow> RawProtocolMessage" where
  "spread_message existing incoming =
     \<lparr> msg_id = msg_id incoming,
       trace_id = spread_opt (trace_id existing) (trace_id incoming),
       message_type = message_type incoming,
       project_id = spread_opt (project_id existing) (project_id incoming),
       payload = payload incoming,
       timestamp = timestamp incoming,
       sender_id = spread_opt (sender_id existing) (sender_id incoming),
       status = spread_opt (status existing) (status incoming) \<rparr>"

text \<open>\<^verbatim>\<open>Array.prototype.findIndex\<close>; \<open>None\<close> stands for the result -1.\<close>

fun findIndex :: "('a \<Rightarrow> bool) \<Rightarrow> 'a list \<Rightarrow> nat option" where
  "findIndex p [] = None"
| "findIndex p (x # xs) = (if p x then Some 0 else map_option Suc (findIndex p xs))"

section \<open>Storage adapters (store/MemoryAdapter.ts, store/IndexedDbAdapter.ts)\<close>

text \<open>
  The \<^verbatim>\<open>StorageAdapter\<close> interface. An adapter is an object with a state of its own
  (\<open>'a\<close>); each operation is asynchronous and may reject.
\<close>

record 'a StorageAdapter =
  loadSessionMessages :: "string \<Rightarrow> 'a \<Rightarrow> js_exn + RawProtocolMessage list"
  saveMessage :: "string \<Rightarrow> RawProtocolMessage \<Rightarrow> 'a \<Rightarrow> js_exn + 'a"
  updateMessage :: "string \<Rightarrow> RawProtocolMessage \<Rightarrow> 'a \<Rightarrow> js_exn + 'a"
  clearSession :: "string \<Rightarrow> 'a \<Rightarrow> js_exn + 'a"

text \<open>
  \<^verbatim>\<open>
  export class MemoryStorageAdapter implements StorageAdapter {
    private store = new Map<string, RawProtocolMessage[]>()
    async loadSessionMessages(sessionId: string) {
      return [...(this.store.get(sessionId) ?? [])]
    }
    async saveMessage(sessionId: string, message: RawProtocolMessage) {
      const list = this.store.get(sessionId) ?? []
      const index = list.findIndex(item => item.id === message.id)
      if (index >= 0) { list[index] = message } else { list.push(message) }
      this.store.set(sessionId, list)
    }
    async updateMessage(sessionId, message) { await this.saveMessage(sessionId, message) }
    async clearSession(sessionId: string) { this.store.delete(sessionId) }
  }
  \<close>
\<close>

type_synonym memory_store = "string \<Rightarrow> RawProtocolMessage list option"

definition Memory_loadSessionMessages :: "string \<Rightarrow> memory_store \<Rightarrow> RawProtocolMessage list" where
  "Memory_loadSessionMessages sid store = (case store sid of None \<Rightarrow> [] | Some list \<Rightarrow> list)"

definition Memory_saveMessage :: "string \<Rightarrow> RawProtocolMessage \<Rightarrow> memory_store \<Rightarrow> memory_store" where
  "Memory_saveMessage sid incoming store =
     (let list = (case store sid of None \<Rightarrow> [] | Some list \<Rightarrow> list)
      in store(sid \<mapsto>
           (case findIndex (\<lambda>item. msg_id item = msg_id incoming) list of
              Some i \<Rightarrow> list[i := incoming]
            | None \<Rightarrow> list @ [incoming])))"

definition Memory_clearSession :: "string \<Rightarrow> memory_store \<Rightarrow> memory_store" where
  "Memory_clearSession sid store = store(sid := None)"

definition MemoryStorageAdapter :: "memory_store StorageAdapter" where
  "MemoryStorageAdapter =
     \<lparr> loadSessionMessages = (\<lambda>sid store. Inr (Memory_loadSessionMessages sid store)),
       saveMessage = (\<lambda>sid incoming store. Inr (Memory_saveMessage sid incoming store)),
       updateMessage = (\<lambda>sid incoming store. Inr (Memory_saveMessage sid incoming store)),
       clearSession = (\<lambda>sid store. Inr (Memory_clearSession sid store)) \<rparr>"

text \<open>
  The IndexedDB adapter keeps one object store whose key path is \<^verbatim>\<open>key\<close>, with an index
  on \<^verbatim>\<open>sessionId\<close>. The object store is modelled as the list of its records in the order
  of their keys (strings, compared lexicographically), which is the order in which the
  index returns the records of one session. \<^verbatim>\<open>put\<close> replaces the record with the same key
  or inserts a new one. The database is either available or not
  (\<^verbatim>\<open>typeof indexedDB === 'undefined'\<close>); a request to an available database succeeds.
  \<^verbatim>\<open>
    const record: StoredMessage = {
      key: `${sessionId}:${message.id}`, sessionId, timestamp: message.timestamp, message }
    const request = store.put(record)
  \<close>
  \<^verbatim>\<open>
    const request = index.getAll(IDBKeyRange.only(sessionId))
    request.onsuccess = () => {
      const items = (request.result as StoredMessage[]) ?? []
      const messages = items.map(item => item.message).sort((a, b) => a.timestamp - b.timestamp)
      resolve(messages)
    }
  \<close>
  \<^verbatim>\<open>Array.prototype.sort\<close> is stable; it is modelled by the stable insertion sort
  \<open>sort_key\<close>.
\<close>

record StoredMessage =
  sm_key :: string
  sm_sessionId :: string
  sm_timestamp :: int
  sm_message :: RawProtocolMessage

record IndexedDb =
  available :: bool
  records :: "StoredMessage list"

fun put :: "StoredMessage \<Rightarrow> StoredMessage list \<Rightarrow> StoredMessage list" where
  "put r [] = [r]"
| "put r (x # xs) =
     (if sm_key r = sm_key x then r # xs
      else if sm_key r < sm_key x then r # x # xs
      else x # put r xs)"

definition not_available :: js_exn where
  "not_available = ErrorObj ''IndexedDB is not available''"

definition IndexedDb_putMessage :: "string \<Rightarrow> RawProtocolMessage \<Rightarrow> IndexedDb \<Rightarrow> js_exn + IndexedDb" where
  "IndexedDb_putMessage sid incoming db =
     (if \<not> available db then Inl not_available
      else Inr (db\<lparr> records :=
                  put \<lparr> sm_key = sid @ '':'' @ msg_id incoming, sm_sessionId = sid,
                        sm_timestamp = timestamp incoming, sm_message = incoming \<rparr>
                    (records db) \<rparr>))"

definition IndexedDb_loadSessionMessages ::
  "string \<Rightarrow> IndexedDb \<Rightarrow> js_exn + RawProtocolMessage list" where
  "IndexedDb_loadSessionMessages sid db =
     (if \<not> available db then Inl not_available
      else Inr (sort_key timestamp
                  (map sm_message (filter (\<lambda>r. sm_sessionId r = sid) (records db)))))"

definition IndexedDb_clearSession :: "string \<Rightarrow> IndexedDb \<Rightarrow> js_exn + IndexedDb" where
  "IndexedDb_clearSession sid db =
     (if \<not> available db then Inl not_available
      else Inr (db\<lparr> records := filter (\<lambda>r. sm_sessionId r \<noteq> sid) (records db) \<rparr>))"

definition IndexedDbAdapter :: "IndexedDb StorageAdapter" where
  "IndexedDbAdapter =
     \<lparr> loadSessionMessages = IndexedDb_loadSessionMessages,
       saveMessage = IndexedDb_putMessage,
       updateMessage = IndexedDb_putMessage,
       clearSession = IndexedDb_clearSession \<rparr>"

section \<open>The chat store (store/ChatStore.ts)\<close>

text \<open>
  The fields of a \<^verbatim>\<open>ChatStore\<close>; \<open>adapter_state\<close> is the state of the adapter object that
  \<open>storageAdapter\<close> refers to. The derived \<^verbatim>\<open>uiMessages\<close> is the merge pass of the message
  mapper over \<open>rawMessages\<close>, defined with the mapper below.
\<close>

record 'a ChatStore =
  rawMessages :: "RawProtocolMessage list"
  messageIds :: "string set"
  sessionId :: "string option"
  storageAdapter :: "'a StorageAdapter option"
  adapter_state :: 'a
  storageNamespace :: "string option"

definition getStorageKey :: "'a ChatStore \<Rightarrow> string \<Rightarrow> string" where
  "getStorageKey store sid =
     (case storageNamespace store of
        None \<Rightarrow> sid
      | Some ns \<Rightarrow> if ns = [] then sid else ns @ '':'' @ sid)"

definition setSession :: "string \<Rightarrow> 'a ChatStore \<Rightarrow> 'a ChatStore" where
  "setSession sid store = store\<lparr> sessionId := Some sid \<rparr>"

text \<open>
  \<^verbatim>\<open>
  async loadSession(sessionId?: string) {
    const target = sessionId ?? this.sessionId
    if (!target || !this.storageAdapter) return
    this.sessionId = target
    const messages = await this.storageAdapter.loadSessionMessages(this.getStorageKey(target))
    const sorted = [...messages].sort((a, b) => a.timestamp - b.timestamp)
    this.rawMessages.value = sorted
    this.messageIds = new Set(sorted.map(message => message.id))
  }
  \<close>
  Each operation returns the store and the exception of a rejected promise, if any.
\<close>

definition loadSession :: "string option \<Rightarrow> 'a ChatStore \<Rightarrow> 'a ChatStore \<times> js_exn option" where
  "loadSession sid store =
     (case (case sid of None \<Rightarrow> sessionId store | Some s \<Rightarrow> Some s) of
        None \<Rightarrow> (store, None)
      | Some target \<Rightarrow>
          (if target = [] then (store, None)
           else (case storageAdapter store of
                   None \<Rightarrow> (store, None)
                 | Some adapter \<Rightarrow>
                     (let store1 = store\<lparr> sessionId := Some target \<rparr>
                      in case loadSessionMessages adapter (getStorageKey store1 target)
                                (adapter_state store1) of
                           Inl e \<Rightarrow> (store1, Some e)
                         | Inr messages \<Rightarrow>
                             (let ordered = sort_key timestamp messages
                              in (store1\<lparr> rawMessages := ordered,
                                         messageIds := set (map msg_id ordered) \<rparr>, None))))))"



text \<open>
  \<^verbatim>\<open>
  async clearSession(sessionId?: string) {
    const target = sessionId ?? this.sessionId
    if (target && this.storageAdapter) {
      await this.storageAdapter.clearSession(this.getStorageKey(target))
    }
    this.rawMessages.value = []
    this.messageIds.clear()
  }
  \<close>
  When the adapter rejects, the two resets are not reached.
\<close>

definition store_clearSession :: "string option \<Rightarrow> 'a ChatStore \<Rightarrow> 'a ChatStore \<times> js_exn option" where
  "store_clearSession sid store =
     (let target = (case sid of None \<Rightarrow> sessionId store | Some s \<Rightarrow> Some s);
          cleared = (\<lambda>st. st\<lparr> rawMessages := [], messageIds := {} \<rparr>)
      in case (target, storageAdapter store) of
           (Some t, Some adapter) \<Rightarrow>
             (if t = [] then (cleared store, None)
              else (case clearSession adapter (getStorageKey store t) (adapter_state store) of
                      Inl e \<Rightarrow> (store, Some e)
                    | Inr a \<Rightarrow> (cleared (store\<lparr> adapter_state := a \<rparr>), None)))
         | _ \<Rightarrow> (cleared store, None))"



section \<open>The message mapper (shared-protocol/src/index.ts)\<close>

datatype UIMessageType =
    t_user
  | t_response
  | t_error
  | t_ack
  | t_thought
  | t_plan
  | t_todo_update
  | t_tool_call
  | t_tool_result
  | t_stream
  | t_hil_request
  | t_unknown

text \<open>
  A \<^verbatim>\<open>UIMessage\<close>. The casts of the source (\<^verbatim>\<open>payload.text as string\<close>) check nothing, so a
  field filled from the payload holds whatever value the payload has; a field that the
  object literal does not set is \<^verbatim>\<open>undefined\<close>.
\<close>

record UIMessage =
  ui_id :: string
  ui_type :: UIMessageType
  content :: jsval
  createdAt :: string
  stage :: jsval
  todos :: jsval
  reasoning :: jsval
  todoId :: jsval
  ui_status :: jsval
  ui_result :: jsval
  ui_error :: jsval
  toolName :: jsval
  success :: jsval
  actionRequired :: jsval
  isFinal :: jsval
  ui_errorCode :: jsval
  errorMessage :: jsval
  suggestion :: jsval
  ui_payload :: jsobj
  hilRequestId :: jsval
  hilStatus :: jsval
  hilDescription :: jsval
  hilRiskLevel :: jsval
  hilResponseText :: jsval

record MessageMapperStrings =
  processing :: string
  unknownError :: string
  hil_title :: string
  hil_responded :: string
  hil_confirmed :: string
  hil_rejected :: string
  hil_userCancelled :: string
  hil_edited :: string

text \<open>
  The options of the mapper. The sanitizer is a callback; its second argument is
  \<^verbatim>\<open>undefined\<close> (\<open>None\<close>) when the mapper calls it with one argument. The model covers
  sanitizers that return; the default one is \<^verbatim>\<open>shouldTrim ? text.trim() : text\<close> with
  \<^verbatim>\<open>shouldTrim = true\<close> when the argument is missing.
\<close>

record MessageMapperOptions =
  strings :: MessageMapperStrings
  sanitizeAssistantText :: "(jsval \<Rightarrow> bool option \<Rightarrow> jsval) option"

definition sanitize :: "platform \<Rightarrow> MessageMapperOptions \<Rightarrow> jsval \<Rightarrow> bool option \<Rightarrow> jsval" where
  "sanitize P opts text shouldTrim =
     (case sanitizeAssistantText opts of
        Some f \<Rightarrow> f text shouldTrim
      | None \<Rightarrow> if or_else shouldTrim True then trim P text else text)"

text \<open>
  \<^verbatim>\<open>
    const base: UIMessage = {
      id: zmpMsg.id, type: 'unknown', content: '',
      createdAt: new Date(zmpMsg.timestamp).toISOString(), payload
    }
  \<close>
\<close>

definition base :: "platform \<Rightarrow> RawProtocolMessage \<Rightarrow> UIMessage" where
  "base P zmpMsg =
     \<lparr> ui_id = msg_id zmpMsg, ui_type = t_unknown, content = JStr [],
       createdAt = toISOString P (timestamp zmpMsg),
       stage = JUndef, todos = JUndef, reasoning = JUndef, todoId = JUndef,
       ui_status = JUndef, ui_result = JUndef, ui_error = JUndef, toolName = JUndef,
       success = JUndef, actionRequired = JUndef, isFinal = JUndef, ui_errorCode = JUndef,
       errorMessage = JUndef, suggestion = JUndef, ui_payload = payload zmpMsg,
       hilRequestId = JUndef, hilStatus = JUndef, hilDescription = JUndef,
       hilRiskLevel = JUndef, hilResponseText = JUndef \<rparr>"

text \<open>
  \<^verbatim>\<open>toUIMessage\<close>: the \<^verbatim>\<open>switch\<close> on the message type, one branch per case in the order of
  the source. In the tool-result branch,
  \<^verbatim>\<open>
    success: (payload.success as boolean) ?? true,
    result: typeof payload.result === 'string' ? payload.result : JSON.stringify(payload.result),
    actionRequired: payload.action_required as ActionRequired
  \<close>
  and no \<^verbatim>\<open>error\<close> field is set.
\<close>

definition toUIMessage :: "platform \<Rightarrow> MessageMapperOptions \<Rightarrow> RawProtocolMessage \<Rightarrow> UIMessage" where
  "toUIMessage P opts zmpMsg =
     (let pl = payload zmpMsg;
          msgType = message_type zmpMsg;
          b = base P zmpMsg
      in if msgType = ''user_command'' then
           b\<lparr> ui_type := t_user, content := js_or (get pl ''text'') (JStr []) \<rparr>
         else if msgType = ''agent_ack'' then
           b\<lparr> ui_type := t_ack,
              content := js_or (get pl ''message'') (JStr (processing (strings opts))) \<rparr>
         else if msgType = ''agent_thought'' then
           b\<lparr> ui_type := t_thought, content := js_or (get pl ''content'') (JStr []),
              stage := js_or (get pl ''stage'') (JStr ''thinking'') \<rparr>
         else if msgType = ''agent_plan'' then
           b\<lparr> ui_type := t_plan, content := JStr [],
              todos := js_or (get pl ''todos'') (JArr []),
              reasoning := js_or (get pl ''reasoning'') (JStr []) \<rparr>
         else if msgType = ''todo_update'' then
           b\<lparr> ui_type := t_todo_update, content := JStr [],
              todoId := js_or (get pl ''todo_id'') (JStr []),
              ui_status := js_or (get pl ''status'') (JStr ''pending''),
              ui_result := get pl ''result'', ui_error := get pl ''error'' \<rparr>
         else if msgType = ''tool_call'' then
           b\<lparr> ui_type := t_tool_call, content := JStr [],
              toolName := js_or (get pl ''tool_name'') (JStr ''unknown'') \<rparr>
         else if msgType = ''tool_result'' then
           b\<lparr> ui_type := t_tool_result, content := JStr [],
              toolName := js_or (get pl ''tool_name'') (JStr ''unknown''),
              success := js_coalesce (get pl ''success'') (JBool True),
              ui_result := (case get pl ''result'' of
                              JStr s \<Rightarrow> JStr s
                            | v \<Rightarrow> JSON_stringify P v),
              actionRequired := get pl ''action_required'' \<rparr>
         else if msgType = ''agent_stream'' then
           b\<lparr> ui_type := t_stream,
              content := sanitize P opts
                           (js_or (get pl ''content'') (js_or (get pl ''chunk'') (JStr [])))
                           (Some False),
              isFinal := js_or (get pl ''is_final'') (JBool False) \<rparr>
         else if msgType = ''agent_response'' then
           b\<lparr> ui_type := t_response,
              content := sanitize P opts (js_or (get pl ''content'') (JStr [])) None \<rparr>
         else if msgType = ''agent_error'' then
           b\<lparr> ui_type := t_error, content := JStr [],
              ui_errorCode := js_or (get pl ''code'') (JStr ''UNKNOWN''),
              errorMessage := js_or (get pl ''message'') (JStr (unknownError (strings opts))),
              suggestion := get pl ''suggestion'' \<rparr>
         else if msgType = ''human_intervention_request'' then
           b\<lparr> ui_type := t_hil_request,
              content := js_or (get pl ''description'') (JStr (hil_title (strings opts))),
              hilRequestId := js_or (get pl ''request_id'') (JStr []),
              hilStatus := JStr ''pending'',
              hilDescription := js_or (get pl ''description'') (JStr []),
              hilRiskLevel := js_or (get pl ''risk_level'') (JStr ''medium''),
              toolName := js_or (get pl ''tool_name'') (JStr []) \<rparr>
         else if msgType = ''human_intervention_response'' then
           b\<lparr> ui_type := t_unknown, content := JStr [],
              hilResponseText :=
                js_or (get pl ''response_text'') (JStr (hil_responded (strings opts))) \<rparr>
         else
           b\<lparr> ui_type := t_unknown, content := JSON_stringify P (JObj pl) \<rparr>)"

text \<open>
  The two lookup tables of the merge pass are \<^verbatim>\<open>Map\<close>s from a call id or request id to the
  UI message object, which is also an element of the output array; the model maps the
  key to the index of that element. A \<^verbatim>\<open>Map\<close> compares primitive keys by value and an
  object or array by reference; payloads of different messages do not share references,
  so an entry stored under an object or array is never found again.
\<close>

fun primitive :: "jsval \<Rightarrow> bool" where
  "primitive (JArr xs) = False"
| "primitive (JObj kvs) = False"
| "primitive v = True"

type_synonym index_map = "jsval \<Rightarrow> nat option"

definition map_set :: "jsval \<Rightarrow> nat \<Rightarrow> index_map \<Rightarrow> index_map" where
  "map_set k i m = (if primitive k then m(k \<mapsto> i) else m)"

definition map_has :: "index_map \<Rightarrow> jsval \<Rightarrow> bool" where
  "map_has m k = (primitive k \<and> m k \<noteq> None)"

record merge_state =
  uiMessages :: "UIMessage list"
  toolCallMap :: index_map
  hilRequestMap :: index_map

definition push :: "UIMessage \<Rightarrow> merge_state \<Rightarrow> merge_state" where
  "push uiMsg st = st\<lparr> uiMessages := uiMessages st @ [uiMsg] \<rparr>"

text \<open>
  The two in-place updates of the loop body.
  \<^verbatim>\<open>
    callMsg.type = 'tool_result'
    callMsg.success = uiMsg.success
    callMsg.result = uiMsg.result
    callMsg.error = uiMsg.error
    callMsg.payload = { ...callMsg.payload, ...uiMsg.payload,
                        arguments: callMsg.payload?.arguments }
  \<close>
\<close>

definition merge_result :: "UIMessage \<Rightarrow> UIMessage \<Rightarrow> UIMessage" where
  "merge_result callMsg uiMsg =
     callMsg\<lparr> ui_type := t_tool_result, success := success uiMsg,
              ui_result := ui_result uiMsg, ui_error := ui_error uiMsg,
              ui_payload := set_prop ''arguments'' (get (ui_payload callMsg) ''arguments'')
                              (spread (ui_payload callMsg) (ui_payload uiMsg)) \<rparr>"

text \<open>
  \<^verbatim>\<open>
    const action = uiMsg.payload?.action as string
    if (action === 'accept') {
      requestMsg.hilStatus = 'accepted'
      requestMsg.hilResponseText = options.strings.hil.confirmed
    } else if (action === 'reject') {
      requestMsg.hilStatus = 'rejected'
      requestMsg.hilResponseText = options.strings.hil.rejected.replace('{reason}',
        (uiMsg.payload?.reason as string) || options.strings.hil.userCancelled)
    } else if (action === 'edit') {
      requestMsg.hilStatus = 'edited'
      requestMsg.hilResponseText = options.strings.hil.edited
    }
  \<close>
\<close>

definition apply_response ::
  "platform \<Rightarrow> MessageMapperOptions \<Rightarrow> UIMessage \<Rightarrow> UIMessage \<Rightarrow> UIMessage" where
  "apply_response P opts requestMsg uiMsg =
     (let action = get (ui_payload uiMsg) ''action''
      in if action = JStr ''accept'' then
           requestMsg\<lparr> hilStatus := JStr ''accepted'',
                        hilResponseText := JStr (hil_confirmed (strings opts)) \<rparr>
         else if action = JStr ''reject'' then
           requestMsg\<lparr> hilStatus := JStr ''rejected'',
                        hilResponseText :=
                          JStr (replace P (hil_rejected (strings opts)) ''{reason}''
                                  (js_or (get (ui_payload uiMsg) ''reason'')
                                     (JStr (hil_userCancelled (strings opts))))) \<rparr>
         else if action = JStr ''edit'' then
           requestMsg\<lparr> hilStatus := JStr ''edited'',
                        hilResponseText := JStr (hil_edited (strings opts)) \<rparr>
         else requestMsg)"

text \<open>
  The body of the loop of \<^verbatim>\<open>mergeMessages\<close>, for the UI message of one raw message:
  \<^verbatim>\<open>
      if (uiMsg.type === 'tool_call') {
        uiMessages.push(uiMsg)
        if (uiMsg.payload?.tool_call_id) {
          toolCallMap.set(uiMsg.payload.tool_call_id as string, uiMsg)
        }
      } else if (uiMsg.type === 'tool_result') {
        const toolCallId = uiMsg.payload?.tool_call_id as string
        if (toolCallId && toolCallMap.has(toolCallId)) {
          const callMsg = toolCallMap.get(toolCallId)!
          ...
        } else {
          uiMessages.push(uiMsg)
        }
      } else if (uiMsg.type === 'hil_request') {
        uiMessages.push(uiMsg)
        if (uiMsg.hilRequestId) {
          hilRequestMap.set(uiMsg.hilRequestId, uiMsg)
        }
      } else if (uiMsg.type === 'unknown' && uiMsg.hilResponseText) {
        const requestId = uiMsg.payload?.request_id as string
        if (requestId && hilRequestMap.has(requestId)) {
          const requestMsg = hilRequestMap.get(requestId)!
          ...
        }
      } else {
        uiMessages.push(uiMsg)
      }
  \<close>
\<close>

definition mergeStep ::
  "platform \<Rightarrow> MessageMapperOptions \<Rightarrow> merge_state \<Rightarrow> UIMessage \<Rightarrow> merge_state" where
  "mergeStep P opts st uiMsg =
     (if ui_type uiMsg = t_tool_call then
        (let st1 = push uiMsg st;
             toolCallId = get (ui_payload uiMsg) ''tool_call_id''
         in if truthy toolCallId
            then st1\<lparr> toolCallMap :=
                       map_set toolCallId (length (uiMessages st)) (toolCallMap st1) \<rparr>
            else st1)
      else if ui_type uiMsg = t_tool_result then
        (let toolCallId = get (ui_payload uiMsg) ''tool_call_id''
         in if truthy toolCallId \<and> map_has (toolCallMap st) toolCallId
            then (case toolCallMap st toolCallId of
                    Some i \<Rightarrow>
                      st\<lparr> uiMessages :=
                            (uiMessages st)[i := merge_result (uiMessages st ! i) uiMsg] \<rparr>
                  | None \<Rightarrow> st)
            else push uiMsg st)
      else if ui_type uiMsg = t_hil_request then
        (let st1 = push uiMsg st
         in if truthy (hilRequestId uiMsg)
            then st1\<lparr> hilRequestMap :=
                       map_set (hilRequestId uiMsg) (length (uiMessages st)) (hilRequestMap st1) \<rparr>
            else st1)
      else if ui_type uiMsg = t_unknown \<and> truthy (hilResponseText uiMsg) then
        (let requestId = get (ui_payload uiMsg) ''request_id''
         in if truthy requestId \<and> map_has (hilRequestMap st) requestId
            then (case hilRequestMap st requestId of
                    Some i \<Rightarrow>
                      st\<lparr> uiMessages :=
                            (uiMessages st)[i := apply_response P opts (uiMessages st ! i) uiMsg] \<rparr>
                  | None \<Rightarrow> st)
            else st)
      else push uiMsg st)"

fun mergeLoop ::
  "platform \<Rightarrow> MessageMapperOptions \<Rightarrow> RawProtocolMessage list \<Rightarrow> merge_state \<Rightarrow> merge_state" where
  "mergeLoop P opts [] st = st"
| "mergeLoop P opts (zmpMsg # rest) st =
     mergeLoop P opts rest (mergeStep P opts st (toUIMessage P opts zmpMsg))"

definition initial_merge_state :: merge_state where
  "initial_merge_state = \<lparr> uiMessages = [], toolCallMap = (\<lambda>k. None), hilRequestMap = (\<lambda>k. None) \<rparr>"

definition mergeMessages ::
  "platform \<Rightarrow> MessageMapperOptions \<Rightarrow> RawProtocolMessage list \<Rightarrow> UIMessage list" where
  "mergeMessages P opts rawMsgs = uiMessages (mergeLoop P opts rawMsgs initial_merge_state)"

text \<open>The store's derived view: \<^verbatim>\<open>computed(() => this.mapper.mergeMessages(this.rawMessages.value))\<close>.\<close>

definition store_uiMessages :: "platform \<Rightarrow> MessageMapperOptions \<Rightarrow> 'a ChatStore \<Rightarrow> UIMessage list" where
  "store_uiMessages P opts store = mergeMessages P opts (rawMessages store)"


section \<open>Notions used in the statements\<close>






text \<open>
  The words of the claims about the store. The distinct ids of a sequence of writes, in
  the order of their first occurrence; the writes with a given id, in order; and the
  sequence that last-write-wins merging by id describes: one entry per distinct id, at
  the position of the id's first write, being the spread of all writes with that id.
\<close>

fun first_occurrences :: "'a list \<Rightarrow> 'a list" where
  "first_occurrences [] = []"
| "first_occurrences (x # xs) = x # removeAll x (first_occurrences xs)"

definition writes_of :: "string \<Rightarrow> RawProtocolMessage list \<Rightarrow> RawProtocolMessage list" where
  "writes_of i ms = filter (\<lambda>m. msg_id m = i) ms"


text \<open>Upsert by id without merging: the last write with each id, at the id's first position.\<close>

definition upserted_by_id :: "RawProtocolMessage list \<Rightarrow> RawProtocolMessage list" where
  "upserted_by_id ms = map (\<lambda>i. last (writes_of i ms)) (first_occurrences (map msg_id ms))"

text \<open>Saving a sequence of messages under one key, each call awaited.\<close>

definition Memory_saveAll :: "string \<Rightarrow> RawProtocolMessage list \<Rightarrow> memory_store \<Rightarrow> memory_store" where
  "Memory_saveAll sid ms store = foldl (\<lambda>s m. Memory_saveMessage sid m s) store ms"

fun IndexedDb_saveAll :: "string \<Rightarrow> RawProtocolMessage list \<Rightarrow> IndexedDb \<Rightarrow> js_exn + IndexedDb" where
  "IndexedDb_saveAll sid [] db = Inr db"
| "IndexedDb_saveAll sid (m # ms) db =
     (case IndexedDb_putMessage sid m db of
        Inl e \<Rightarrow> Inl e
      | Inr db' \<Rightarrow> IndexedDb_saveAll sid ms db')"

definition empty_database :: IndexedDb where
  "empty_database = \<lparr> available = True, records = [] \<rparr>"


text \<open>Insert or combine by id: the loop body shared by the store (combining with the spread) and the in-memory adapter (replacing).\<close>

definition upsert_with ::
  "(RawProtocolMessage \<Rightarrow> RawProtocolMessage \<Rightarrow> RawProtocolMessage)
   \<Rightarrow> RawProtocolMessage list \<Rightarrow> RawProtocolMessage \<Rightarrow> RawProtocolMessage list" where
  "upsert_with c rs m =
     (case findIndex (\<lambda>item. msg_id item = msg_id m) rs of
        Some i \<Rightarrow> rs[i := c (rs ! i) m]
      | None \<Rightarrow> rs @ [m])"

text \<open>One entry per distinct id, at the position of its first write, combining its writes in order.\<close>

definition combined_by_id ::
  "(RawProtocolMessage \<Rightarrow> RawProtocolMessage \<Rightarrow> RawProtocolMessage)
   \<Rightarrow> RawProtocolMessage list \<Rightarrow> RawProtocolMessage list" where
  "combined_by_id c ms =
     map (\<lambda>i. foldl c (hd (writes_of i ms)) (tl (writes_of i ms)))
       (first_occurrences (map msg_id ms))"

text \<open>The records of an object store are in strictly increasing order of their keys.\<close>

definition keys_sorted :: "StoredMessage list \<Rightarrow> bool" where
  "keys_sorted rs = sorted_wrt (<) (map sm_key rs)"

text \<open>The record that \<^verbatim>\<open>putMessage\<close> builds for a message.\<close>

definition stored :: "string \<Rightarrow> RawProtocolMessage \<Rightarrow> StoredMessage" where
  "stored k m = \<lparr> sm_key = k @ '':'' @ msg_id m, sm_sessionId = k,
                  sm_timestamp = timestamp m, sm_message = m \<rparr>"

text \<open>The last write of every id.\<close>

definition last_writes :: "RawProtocolMessage list \<Rightarrow> RawProtocolMessage set" where
  "last_writes ms = (\<lambda>i. last (writes_of i ms)) ` msg_id ` set ms"

section \<open>Example inputs\<close>

text \<open>
  A concrete host for evaluating the model at examples. It stands in for the built-ins
  with simple functions: every string, array and object coerces to NaN, a frame is the
  value itself, a date is its number of milliseconds.
\<close>

definition host0 :: platform where
  "host0 = \<lparr> ToNumber = (\<lambda>v. NaN), ToString = (\<lambda>v. ''[value]''),
             JSON_stringify = (\<lambda>v. v), toISOString = decimal_int,
             trim = (\<lambda>s. s), replace = (\<lambda>s p r. s) \<rparr>"













definition memory_backed_store :: "memory_store ChatStore" where
  "memory_backed_store =
     \<lparr> rawMessages = [], messageIds = {}, sessionId = Some ''s'',
       storageAdapter = Some MemoryStorageAdapter, adapter_state = (\<lambda>k. None),
       storageNamespace = None \<rparr>"

definition msg_late :: RawProtocolMessage where
  "msg_late = \<lparr> msg_id = ''late'', trace_id = Absent, message_type = ''agent_ack'',
                 project_id = Absent, payload = [], timestamp = 2,
                 sender_id = Absent, status = Absent \<rparr>"

definition msg_early :: RawProtocolMessage where
  "msg_early = \<lparr> msg_id = ''early'', trace_id = Absent, message_type = ''agent_ack'',
                  project_id = Absent, payload = [], timestamp = 1,
                  sender_id = Absent, status = Absent \<rparr>"

section \<open>Properties of progress normalization\<close>

lemma numeric_not_finite: "\<not> isFinite (maybeNumber P raw) \<Longrightarrow> numeric P raw = 0"
  by (cases "maybeNumber P raw") (simp_all add: numeric_def)

lemma numeric_finite: "maybeNumber P raw = Fin x \<Longrightarrow> numeric P raw = x"
  by (simp add: numeric_def)

lemma normalizeProgress_range: "0 \<le> normalizeProgress P raw \<and> normalizeProgress P raw \<le> 1"
  by (simp add: normalizeProgress_def)

text \<open>
  Claim C4. For every input of the progress normalization: an input that does not coerce
  to a finite number maps to 0; a numeric input greater than 1 is divided by 100; the
  result is clamped to the interval from 0 to 1. In particular normalize(0.5) = 0.5,
  normalize(50) = 0.5, normalize(150) = 1, normalize(-5) = 0, and normalize("abc") = 0
  (the string "abc" coerces to NaN).
\<close>

theorem normalizeProgress_rule:
  "(\<not> isFinite (maybeNumber P raw) \<longrightarrow> normalizeProgress P raw = 0)
   \<and> (\<forall>x. maybeNumber P raw = Fin x \<and> x > 1 \<longrightarrow>
         normalizeProgress P raw = max 0 (min 1 (x / 100)))
   \<and> (\<forall>x. maybeNumber P raw = Fin x \<and> \<not> x > 1 \<longrightarrow>
         normalizeProgress P raw = max 0 (min 1 x))
   \<and> 0 \<le> normalizeProgress P raw \<and> normalizeProgress P raw \<le> 1
   \<and> normalizeProgress P (JNum (Fin 0.5)) = 0.5
   \<and> normalizeProgress P (JNum (Fin 50)) = 0.5
   \<and> normalizeProgress P (JNum (Fin 150)) = 1
   \<and> normalizeProgress P (JNum (Fin (- 5))) = 0
   \<and> (ToNumber P (JStr ''abc'') = NaN \<longrightarrow> normalizeProgress P (JStr ''abc'') = 0)"
proof -
  have a: "\<not> isFinite (maybeNumber P raw) \<longrightarrow> normalizeProgress P raw = 0"
    by (simp add: normalizeProgress_def numeric_not_finite ratio_def)
  have b: "\<forall>x. maybeNumber P raw = Fin x \<and> x > 1 \<longrightarrow>
         normalizeProgress P raw = max 0 (min 1 (x / 100))"
    by (simp add: normalizeProgress_def numeric_finite ratio_def)
  have c: "\<forall>x. maybeNumber P raw = Fin x \<and> \<not> x > 1 \<longrightarrow>
         normalizeProgress P raw = max 0 (min 1 x)"
    by (simp add: normalizeProgress_def numeric_finite ratio_def)
  have d: "normalizeProgress P (JNum (Fin 0.5)) = 0.5"
    "normalizeProgress P (JNum (Fin 50)) = 0.5"
    "normalizeProgress P (JNum (Fin 150)) = 1"
    "normalizeProgress P (JNum (Fin (- 5))) = 0"
    by (simp_all add: normalizeProgress_def numeric_def maybeNumber_def ratio_def)
  have e: "ToNumber P (JStr ''abc'') = NaN \<longrightarrow> normalizeProgress P (JStr ''abc'') = 0"
    by (simp add: normalizeProgress_def numeric_def maybeNumber_def ratio_def)
  from a b c d e normalizeProgress_range [of P raw] show ?thesis by blast
qed

text \<open>
  The rule at a concrete host whose coercion sends every string to NaN, on the inputs
  "abc" (not numeric) and 250 (a percentage above the range).
\<close>

theorem normalizeProgress_rule_witness:
  "normalizeProgress host0 (JStr ''abc'') = 0
   \<and> maybeNumber host0 (JNum (Fin 250)) = Fin 250 \<and> (250 :: real) > 1
   \<and> normalizeProgress host0 (JNum (Fin 250)) = 1"
  using normalizeProgress_rule [of host0 "JStr ''abc''"]
        normalizeProgress_rule [of host0 "JNum (Fin 250)"]
  by (simp add: host0_def maybeNumber_def)

text \<open>
  Infinity is a number greater than 1: divided by 100 and clamped it would give 1, but
  the code's \<^verbatim>\<open>Number.isFinite\<close> test sends it to 0.
\<close>

theorem normalizeProgress_infinity_counterexample:
  "normalize_as_worded PosInf = Fin 1 \<and> normalizeProgress host0 (JNum PosInf) = 0"
  by (simp add: normalize_as_worded_def normalizeProgress_def numeric_def maybeNumber_def
      ratio_def)


section \<open>Properties of the orchestrator\<close>







lemma progress_log [simp]: "progress (log l c m ctx s) = progress s"
  by (simp add: log_def)

lemma progress_applyError [simp]: "progress (applyError d c ctx s) = progress s"
  by (simp add: applyError_def Let_def)






section \<open>Properties of the HTTP request helper\<close>

lemma codeFromHttpStatus_classes:
  "(st \<ge> 500 \<longrightarrow> codeFromHttpStatus st = HTTP_5XX)
   \<and> (400 \<le> st \<and> st \<le> 499 \<longrightarrow> codeFromHttpStatus st = HTTP_4XX)"
  by (simp add: codeFromHttpStatus_def)

lemma request_network:
  "\<exists>d. request P (FetchThrows e) = Inl (ToolSdkError d) \<and> code d = NETWORK \<and> retriable d"
  by (simp add: request_def)

lemma error_detail_not_null:
  "body \<noteq> JNull \<Longrightarrow> body \<noteq> JUndef \<Longrightarrow> \<exists>d. error_detail P st body = Inr d"
  by (cases body) (auto simp: error_detail_def)

lemma request_http_error:
  assumes "\<not> ok st" "parsed \<noteq> Some JNull" "parsed \<noteq> Some JUndef"
  shows "\<exists>d. request P (FetchResponse st parsed) = Inl (ToolSdkError d)
           \<and> code d = codeFromHttpStatus st \<and> retriable d = (st \<ge> 500)
           \<and> http_status d = Some st"
proof -
  obtain d where "error_detail P st (case parsed of None \<Rightarrow> JObj [] | Some v \<Rightarrow> v) = Inr d"
    using assms(2,3) error_detail_not_null [of "case parsed of None \<Rightarrow> JObj [] | Some v \<Rightarrow> v"]
    by (cases parsed) auto
  then show ?thesis
    using assms(1) by (simp add: request_def)
qed

lemma request_unparsable_body:
  assumes "\<not> ok st"
  shows "\<exists>d. request P (FetchResponse st None) = Inl (ToolSdkError d)
           \<and> msg d = ''Request failed: '' @ decimal st"
  using assms
  by (simp add: request_def error_detail_def get_def js_coalesce_def nullish_def)

text \<open>
  Claim C8, at the input where the code departs from it: a response with status 500
  whose body is the JSON value \<^verbatim>\<open>null\<close>. The body parses, so the \<^verbatim>\<open>catch\<close> fallback to an
  empty object is not taken, and reading \<^verbatim>\<open>body.detail\<close> raises a \<^verbatim>\<open>TypeError\<close>: the
  failure is not raised as a typed error with code HTTP_5XX.
\<close>

theorem request_null_body:
  "request host0 (FetchResponse 500 (Some JNull)) = Inl TypeError"
  by (simp add: request_def ok_def error_detail_def)

section \<open>Properties of the realtime client\<close>






















section \<open>Properties of the chat store and the storage adapters\<close>

lemma set_first_occurrences [simp]: "set (first_occurrences xs) = set xs"
  by (induction xs) auto

lemma distinct_first_occurrences [simp]: "distinct (first_occurrences xs)"
  by (induction xs) (auto simp: distinct_removeAll)

lemma first_occurrences_snoc:
  "first_occurrences (xs @ [x]) = (if x \<in> set xs then first_occurrences xs else first_occurrences xs @ [x])"
  by (induction xs) auto

lemma length_first_occurrences: "length (first_occurrences xs) = card (set xs)"
  using distinct_card [of "first_occurrences xs"] by simp

lemma findIndex_None: "findIndex p xs = None \<longleftrightarrow> (\<forall>x \<in> set xs. \<not> p x)"
  by (induction xs) auto

lemma findIndex_Some:
  "findIndex p xs = Some i \<Longrightarrow> i < length xs \<and> p (xs ! i) \<and> (\<forall>j < i. \<not> p (xs ! j))"
proof (induction xs arbitrary: i)
  case Nil
  then show ?case by simp
next
  case (Cons a xs)
  show ?case
  proof (cases "p a")
    case True
    with Cons.prems show ?thesis by simp
  next
    case False
    with Cons.prems obtain k where k: "findIndex p xs = Some k" "i = Suc k" by auto
    from Cons.IH [OF k(1)] False k(2) show ?thesis
      by (auto simp: less_Suc_eq_0_disj)
  qed
qed

lemma findIndex_distinct:
  assumes "distinct (map f xs)" "i < length xs"
  shows "findIndex (\<lambda>x. f x = f (xs ! i)) xs = Some i"
proof -
  have "\<exists>x \<in> set xs. f x = f (xs ! i)" using assms(2) by auto
  then obtain k where k: "findIndex (\<lambda>x. f x = f (xs ! i)) xs = Some k"
    using findIndex_None [of "\<lambda>x. f x = f (xs ! i)" xs] by (cases "findIndex (\<lambda>x. f x = f (xs ! i)) xs") auto
  from findIndex_Some [OF k] have "k < length xs" "f (xs ! k) = f (xs ! i)" by auto
  then have "map f xs ! k = map f xs ! i" using assms(2) by simp
  then have "k = i"
    using assms \<open>k < length xs\<close> nth_eq_iff_index_eq [of "map f xs" k i] by simp
  with k show ?thesis by simp
qed

lemma msg_id_foldl:
  assumes "\<And>a b. msg_id (c a b) = msg_id b"
  shows "msg_id (foldl c w later) = msg_id (last (w # later))"
  using assms by (induction later arbitrary: w rule: rev_induct) auto

lemma writes_of_snoc:
  "writes_of i (ms @ [m]) = (if msg_id m = i then writes_of i ms @ [m] else writes_of i ms)"
  by (simp add: writes_of_def)

lemma writes_of_nonempty: "i \<in> msg_id ` set ms \<Longrightarrow> writes_of i ms \<noteq> []"
  by (auto simp: writes_of_def filter_empty_conv)

lemma writes_of_ids: "w \<in> set (writes_of i ms) \<Longrightarrow> msg_id w = i"
  by (simp add: writes_of_def)

lemma ids_combined:
  assumes "\<And>a b. msg_id (c a b) = msg_id b"
  shows "map msg_id (combined_by_id c ms) = first_occurrences (map msg_id ms)"
proof -
  have "msg_id (foldl c (hd (writes_of i ms)) (tl (writes_of i ms))) = i"
    if "i \<in> msg_id ` set ms" for i
  proof -
    from writes_of_nonempty [OF that] have ne: "writes_of i ms \<noteq> []" .
    then have "last (hd (writes_of i ms) # tl (writes_of i ms)) \<in> set (writes_of i ms)"
      by simp
    then show ?thesis
      using msg_id_foldl [of c, OF assms] writes_of_ids by metis
  qed
  then have "map (\<lambda>i. msg_id (foldl c (hd (writes_of i ms)) (tl (writes_of i ms))))
      (first_occurrences (map msg_id ms)) = first_occurrences (map msg_id ms)"
    by (intro map_idI) simp
  then show ?thesis
    by (simp add: combined_by_id_def o_def)
qed

lemma combined_snoc:
  assumes c: "\<And>a b. msg_id (c a b) = msg_id b"
  shows "combined_by_id c (ms @ [m]) = upsert_with c (combined_by_id c ms) m"
proof (cases "msg_id m \<in> msg_id ` set ms")
  case False
  then have fi: "findIndex (\<lambda>item. msg_id item = msg_id m) (combined_by_id c ms) = None"
    using ids_combined [of c ms, OF c] findIndex_None [of "\<lambda>item. msg_id item = msg_id m" "combined_by_id c ms"]
    by (metis (mono_tags, lifting) image_set set_first_occurrences set_map image_iff)
  have "\<forall>x \<in> set ms. msg_id x \<noteq> msg_id m"
    using False by (metis image_eqI)
  then have "writes_of (msg_id m) ms = []"
    by (simp add: writes_of_def filter_empty_conv)
  moreover have "writes_of i (ms @ [m]) = writes_of i ms" if "i \<in> msg_id ` set ms" for i
    using that False by (auto simp: writes_of_snoc)
  ultimately show ?thesis
    using False fi
    by (simp add: combined_by_id_def upsert_with_def first_occurrences_snoc writes_of_snoc)
next
  case True
  let ?L = "first_occurrences (map msg_id ms)"
  from True obtain k where k: "k < length ?L" "?L ! k = msg_id m"
    by (metis in_set_conv_nth set_first_occurrences set_map)
  have len: "length (combined_by_id c ms) = length ?L"
    by (simp add: combined_by_id_def)
  have "findIndex (\<lambda>x. msg_id x = msg_id (combined_by_id c ms ! k)) (combined_by_id c ms) = Some k"
    using k len ids_combined [of c ms, OF c]
    by (intro findIndex_distinct) simp_all
  moreover have "msg_id (combined_by_id c ms ! k) = msg_id m"
    using k len ids_combined [of c ms, OF c] by (metis nth_map)
  ultimately have fi: "findIndex (\<lambda>item. msg_id item = msg_id m) (combined_by_id c ms) = Some k"
    by simp
  have ne: "writes_of (msg_id m) ms \<noteq> []"
    using True by (rule writes_of_nonempty)
  have new: "foldl c (hd (writes_of (msg_id m) (ms @ [m]))) (tl (writes_of (msg_id m) (ms @ [m])))
     = c (foldl c (hd (writes_of (msg_id m) ms)) (tl (writes_of (msg_id m) ms))) m"
    using ne by (simp add: writes_of_snoc)
  show ?thesis
  proof (rule nth_equalityI)
    show "length (combined_by_id c (ms @ [m])) = length (upsert_with c (combined_by_id c ms) m)"
      using True fi by (simp add: combined_by_id_def upsert_with_def first_occurrences_snoc)
  next
    fix j assume "j < length (combined_by_id c (ms @ [m]))"
    then have j: "j < length ?L"
      using True by (simp add: combined_by_id_def first_occurrences_snoc)
    show "combined_by_id c (ms @ [m]) ! j = upsert_with c (combined_by_id c ms) m ! j"
    proof (cases "j = k")
      case True
      then show ?thesis
        using fi k j new \<open>msg_id m \<in> msg_id ` set ms\<close>
        by (simp add: combined_by_id_def upsert_with_def first_occurrences_snoc)
    next
      case False
      then have "?L ! j \<noteq> msg_id m"
        using k j by (metis distinct_first_occurrences nth_eq_iff_index_eq)
      then show ?thesis
        using fi k j False \<open>msg_id m \<in> msg_id ` set ms\<close>
        by (simp add: combined_by_id_def upsert_with_def first_occurrences_snoc writes_of_snoc)
    qed
  qed
qed

lemma foldl_upsert:
  assumes "\<And>a b. msg_id (c a b) = msg_id b"
  shows "foldl (upsert_with c) [] ms = combined_by_id c ms"
proof (induction ms rule: rev_induct)
  case Nil
  then show ?case by (simp add: combined_by_id_def)
next
  case (snoc m ms)
  then show ?case using combined_snoc [of c ms m, OF assms] by simp
qed


lemma foldl_last: "foldl (\<lambda>a b. b) w later = last (w # later)"
  by (induction later arbitrary: w rule: rev_induct) auto

lemma upserted_by_id_combined: "upserted_by_id ms = combined_by_id (\<lambda>a b. b) ms"
proof -
  have "foldl (\<lambda>a b. b) (hd (writes_of i ms)) (tl (writes_of i ms)) = last (writes_of i ms)"
    if "i \<in> set (first_occurrences (map msg_id ms))" for i
  proof -
    have "writes_of i ms \<noteq> []" using that by (intro writes_of_nonempty) simp
    then show ?thesis by (simp add: foldl_last)
  qed
  then show ?thesis
    unfolding upserted_by_id_def combined_by_id_def by (intro map_cong) simp_all
qed




lemma msg_id_spread [simp]: "msg_id (spread_message a b) = msg_id b"
  by (simp add: spread_message_def)



lemma Memory_saveAll_load:
  "Memory_loadSessionMessages k (Memory_saveAll k ms store)
     = foldl (upsert_with (\<lambda>a b. b)) (Memory_loadSessionMessages k store) ms"
  unfolding Memory_saveAll_def
proof (induction ms arbitrary: store)
  case Nil
  then show ?case by simp
next
  case (Cons m ms)
  have "Memory_loadSessionMessages k (Memory_saveMessage k m store)
      = upsert_with (\<lambda>a b. b) (Memory_loadSessionMessages k store) m"
    by (simp add: Memory_loadSessionMessages_def Memory_saveMessage_def upsert_with_def Let_def
        split: option.splits)
  then show ?case using Cons.IH [of "Memory_saveMessage k m store"] by simp
qed

lemma Memory_roundtrip:
  "store k = None \<Longrightarrow>
   Memory_loadSessionMessages k (Memory_saveAll k ms store) = upserted_by_id ms"
proof -
  assume "store k = None"
  then have "Memory_loadSessionMessages k store = []"
    by (simp add: Memory_loadSessionMessages_def)
  then show ?thesis
    using foldl_upsert [of "\<lambda>a b. b" ms]
    by (simp add: Memory_saveAll_load upserted_by_id_combined)
qed

lemma put_set:
  "keys_sorted rs \<Longrightarrow>
   keys_sorted (put r rs) \<and> set (put r rs) = insert r {x \<in> set rs. sm_key x \<noteq> sm_key r}"
proof (induction rs)
  case Nil
  then show ?case by (simp add: keys_sorted_def)
next
  case (Cons x rs)
  then have IH: "keys_sorted (put r rs)" "set (put r rs) = insert r {x \<in> set rs. sm_key x \<noteq> sm_key r}"
    and x: "\<forall>y \<in> set rs. sm_key x < sm_key y"
    by (auto simp: keys_sorted_def)
  show ?case
  proof (cases "sm_key r = sm_key x")
    case True
    then show ?thesis using Cons.prems x by (auto simp: keys_sorted_def)
  next
    case False
    show ?thesis
    proof (cases "sm_key r < sm_key x")
      case True
      then show ?thesis using Cons.prems x False
        by (auto simp: keys_sorted_def)
    next
      case ge: False
      then have "sm_key x < sm_key r" using False by auto
      then show ?thesis using IH x False ge Cons.prems
        by (auto simp: keys_sorted_def)
    qed
  qed
qed

lemma last_writes_id: "i \<in> msg_id ` set ms \<Longrightarrow> msg_id (last (writes_of i ms)) = i"
  using writes_of_nonempty [of i ms] writes_of_ids [of "last (writes_of i ms)" i ms] by simp

lemma last_writes_snoc:
  "last_writes (ms @ [m]) = insert m {u \<in> last_writes ms. msg_id u \<noteq> msg_id m}"
proof -
  have a: "last (writes_of (msg_id m) (ms @ [m])) = m"
    by (simp add: writes_of_snoc)
  have b: "last (writes_of i (ms @ [m])) = last (writes_of i ms)" if "i \<noteq> msg_id m" for i
    using that by (auto simp: writes_of_snoc)
  show ?thesis
  proof (intro set_eqI iffI)
    fix u assume "u \<in> last_writes (ms @ [m])"
    then obtain i where i: "i \<in> msg_id ` set (ms @ [m])" "u = last (writes_of i (ms @ [m]))"
      by (auto simp: last_writes_def)
    show "u \<in> insert m {u \<in> last_writes ms. msg_id u \<noteq> msg_id m}"
    proof (cases "i = msg_id m")
      case True
      with i a show ?thesis by simp
    next
      case False
      with i have "i \<in> msg_id ` set ms" by auto
      with i False b [OF False] last_writes_id [of i ms] show ?thesis
        by (auto simp: last_writes_def)
    qed
  next
    fix u assume "u \<in> insert m {u \<in> last_writes ms. msg_id u \<noteq> msg_id m}"
    then consider "u = m" | "u \<in> last_writes ms" "msg_id u \<noteq> msg_id m" by auto
    then show "u \<in> last_writes (ms @ [m])"
    proof cases
      case 1
      have "msg_id m \<in> msg_id ` set (ms @ [m])" by simp
      then show ?thesis unfolding last_writes_def using a 1 by (metis (mono_tags) image_eqI)
    next
      case 2
      then obtain i where i: "i \<in> msg_id ` set ms" "u = last (writes_of i ms)"
        by (auto simp: last_writes_def)
      with 2 last_writes_id [of i ms] have "i \<noteq> msg_id m" by auto
      from b [OF this] i have "u = last (writes_of i (ms @ [m]))" by simp
      moreover have "i \<in> msg_id ` set (ms @ [m])" using i by auto
      ultimately show ?thesis unfolding last_writes_def by (metis (mono_tags) image_eqI)
    qed
  qed
qed

lemma set_upserted: "set (upserted_by_id ms) = last_writes ms"
  by (simp add: upserted_by_id_def last_writes_def)

lemma IndexedDb_saveAll_records:
  "available db \<Longrightarrow>
   IndexedDb_saveAll k ms db
     = Inr (db\<lparr> records := foldl (\<lambda>rs m. put (stored k m) rs) (records db) ms \<rparr>)"
  by (induction ms arbitrary: db) (simp_all add: IndexedDb_putMessage_def stored_def)

lemma puts_from_empty:
  "keys_sorted (foldl (\<lambda>rs m. put (stored k m) rs) [] ms)
   \<and> set (foldl (\<lambda>rs m. put (stored k m) rs) [] ms) = stored k ` last_writes ms"
proof (induction ms rule: rev_induct)
  case Nil
  then show ?case by (simp add: keys_sorted_def last_writes_def)
next
  case (snoc m ms)
  let ?rs = "foldl (\<lambda>rs m. put (stored k m) rs) [] ms"
  from snoc have ks: "keys_sorted ?rs" and st: "set ?rs = stored k ` last_writes ms" by simp_all
  from put_set [OF ks, of "stored k m"]
  have p: "keys_sorted (put (stored k m) ?rs)"
    "set (put (stored k m) ?rs) = insert (stored k m) {x \<in> set ?rs. sm_key x \<noteq> sm_key (stored k m)}"
    by simp_all
  have "{x \<in> stored k ` last_writes ms. sm_key x \<noteq> sm_key (stored k m)}
      = stored k ` {u \<in> last_writes ms. msg_id u \<noteq> msg_id m}"
    by (auto simp: stored_def)
  with p st show ?case
    by (simp add: last_writes_snoc)
qed

lemma keys_sorted_distinct: "keys_sorted rs \<Longrightarrow> distinct rs"
proof -
  assume "keys_sorted rs"
  then have "distinct (map sm_key rs)"
    unfolding keys_sorted_def by (simp add: strict_sorted_iff)
  then show ?thesis by (simp add: distinct_map)
qed

lemma card_last_writes: "card (last_writes ms) = card (msg_id ` set ms)"
proof -
  have "inj_on (\<lambda>i. last (writes_of i ms)) (msg_id ` set ms)"
    by (rule inj_on_inverseI [where g = msg_id]) (rule last_writes_id)
  then show ?thesis
    unfolding last_writes_def by (rule card_image)
qed

lemma IndexedDb_roundtrip:
  "\<exists>db l. IndexedDb_saveAll k ms empty_database = Inr db
     \<and> IndexedDb_loadSessionMessages k db = Inr l
     \<and> sorted (map timestamp l)
     \<and> set l = set (upserted_by_id ms)
     \<and> length l = length (upserted_by_id ms)"
proof -
  let ?rs = "foldl (\<lambda>rs m. put (stored k m) rs) [] ms"
  let ?db = "empty_database\<lparr> records := ?rs \<rparr>"
  let ?l = "sort_key timestamp (map sm_message ?rs)"
  from puts_from_empty [of k ms]
  have ks: "keys_sorted ?rs" and st: "set ?rs = stored k ` last_writes ms" by simp_all
  have save: "IndexedDb_saveAll k ms empty_database = Inr ?db"
    using IndexedDb_saveAll_records [of empty_database k ms] by (simp add: empty_database_def)
  have "filter (\<lambda>r. sm_sessionId r = k) ?rs = ?rs"
    using st by (auto simp: stored_def filter_id_conv)
  then have load: "IndexedDb_loadSessionMessages k ?db = Inr ?l"
    by (simp add: IndexedDb_loadSessionMessages_def empty_database_def)
  have "sm_message ` stored k ` last_writes ms = last_writes ms"
    by (force simp: stored_def image_iff)
  then have sl: "set ?l = set (upserted_by_id ms)"
    using st by (simp add: set_upserted)
  have "inj_on (stored k) (last_writes ms)"
    by (rule inj_on_inverseI [where g = sm_message]) (simp add: stored_def)
  then have "card (set ?rs) = card (last_writes ms)"
    using st by (simp add: card_image)
  then have "length ?rs = card (msg_id ` set ms)"
    using keys_sorted_distinct [OF ks] by (simp add: distinct_card card_last_writes)
  then have len: "length ?l = length (upserted_by_id ms)"
    by (simp add: upserted_by_id_def length_first_occurrences)
  have "sorted (map timestamp ?l)" by simp
  with save load sl len show ?thesis by blast
qed

lemma loadSession_sorts:
  assumes "sid \<noteq> []" "storageAdapter st = Some adapter"
    "loadSessionMessages adapter (getStorageKey st sid) (adapter_state st) = Inr msgs"
  shows "rawMessages (fst (loadSession (Some sid) st)) = sort_key timestamp msgs"
  using assms by (simp add: loadSession_def getStorageKey_def Let_def)

text \<open>
  Claim C7, as amended. For both adapters, saving a sequence of messages under a key and
  loading that key returns exactly one entry per saved id, the last message saved with
  that id. The IndexedDB adapter returns them sorted ascending by timestamp. The
  in-memory adapter returns them in the order of the first save of each id, whatever
  the timestamps are; the store's \<^verbatim>\<open>loadSession\<close> sorts what an adapter returns.
\<close>

theorem adapters_roundtrip:
  "(store k = None \<longrightarrow>
      Memory_loadSessionMessages k (Memory_saveAll k ms store) = upserted_by_id ms)
   \<and> (\<exists>db l. IndexedDb_saveAll k ms empty_database = Inr db
         \<and> IndexedDb_loadSessionMessages k db = Inr l
         \<and> sorted (map timestamp l)
         \<and> set l = set (upserted_by_id ms)
         \<and> length l = length (upserted_by_id ms))
   \<and> (sid \<noteq> [] \<and> storageAdapter st = Some adapter
        \<and> loadSessionMessages adapter (getStorageKey st sid) (adapter_state st) = Inr msgs \<longrightarrow>
      rawMessages (fst (loadSession (Some sid) st)) = sort_key timestamp msgs
      \<and> sorted (map timestamp (rawMessages (fst (loadSession (Some sid) st)))))"
proof -
  have "rawMessages (fst (loadSession (Some sid) st)) = sort_key timestamp msgs
      \<and> sorted (map timestamp (rawMessages (fst (loadSession (Some sid) st))))"
    if "sid \<noteq> []" "storageAdapter st = Some adapter"
      "loadSessionMessages adapter (getStorageKey st sid) (adapter_state st) = Inr msgs"
    using loadSession_sorts [OF that] by simp
  then show ?thesis
    using Memory_roundtrip [of store k ms] IndexedDb_roundtrip [of k ms] by blast
qed

lemma upserted_late_early: "upserted_by_id [msg_late, msg_early] = [msg_late, msg_early]"
  by (simp add: upserted_by_id_def writes_of_def msg_late_def msg_early_def)

theorem adapters_roundtrip_witness:
  "Memory_loadSessionMessages ''s'' (Memory_saveAll ''s'' [msg_late, msg_early] (\<lambda>k. None))
     = [msg_late, msg_early]
   \<and> (\<exists>db l. IndexedDb_saveAll ''s'' [msg_late, msg_early] empty_database = Inr db
         \<and> IndexedDb_loadSessionMessages ''s'' db = Inr l
         \<and> sorted (map timestamp l)
         \<and> set l = {msg_late, msg_early}
         \<and> length l = 2)"
  using adapters_roundtrip [of "\<lambda>k. None" "''s''" "[msg_late, msg_early]" "[]"
      memory_backed_store MemoryStorageAdapter "[]"]
  by (simp add: upserted_late_early numeral_2_eq_2 del: IndexedDb_saveAll.simps)

text \<open>
  The in-memory adapter after saving a message with timestamp 2 and then one with
  timestamp 1: the load returns them in the order of insertion, which is not ascending.
\<close>

theorem memory_adapter_unsorted_counterexample:
  "Memory_loadSessionMessages ''s'' (Memory_saveAll ''s'' [msg_late, msg_early] (\<lambda>k. None))
     = [msg_late, msg_early]
   \<and> \<not> sorted (map timestamp [msg_late, msg_early])"
  by (simp add: Memory_loadSessionMessages_def Memory_saveAll_def Memory_saveMessage_def
      msg_late_def msg_early_def)

end
